theory Spec2Isabelle
  imports Complex_Main
begin

section \<open>The cargo-allocation script wfp1040.py\<close>

text \<open>
  The script builds a mixed-integer linear model with PuLP, hands it to the CBC solver and
  reads the solution back with NumPy. Its input block (lines 5-15: \<open>m\<close>, \<open>n\<close>, \<open>S\<close>,
  \<open>r\<close>, \<open>p\<close>, marked "replace with real data") is taken as the parameters of the
  embedding; everything below that block is the program. Python floats are idealised as
  \<^typ>\<open>real\<close>, the counts \<open>m\<close> and \<open>n\<close> are \<^typ>\<open>nat\<close>, and the external solver is a
  parameter of the pipeline.
\<close>

subsection \<open>Errors of the Python run\<close>

datatype error = IndexError | AxisError | ValueError

subsection \<open>The PuLP model as data\<close>

text \<open>
  The decision variables of lines 27-35, named by their indices:
  \<open>x_i_j\<close>, \<open>y_i_j\<close>, \<open>u_i\<close>, \<open>v_i\<close>.
\<close>

datatype var = X nat nat | Y nat nat | U nat | V nat

datatype category = Continuous | Binary

record var_decl =
  vname :: var
  lowBound :: "real option"
  cat :: category

text \<open>
  Affine expressions as the script writes them: constants, variables, a number times an
  expression, sums, differences, unary minus and \<open>pulp.lpSum\<close> over a list.
\<close>

datatype expr =
    Const real
  | Var var
  | Scale real expr
  | Add expr expr
  | Sub expr expr
  | Neg expr
  | LpSum "expr list"

datatype sense = LE | EQ | GE

type_synonym constraint = "expr \<times> sense \<times> expr"

datatype objsense = LpMinimize | LpMaximize

record lp_model =
  objsense_of :: objsense
  variables :: "var_decl list"
  constraints :: "constraint list"
  objective :: expr

subsection \<open>Meaning of a model\<close>

text \<open>A raw assignment gives every variable a value.\<close>

type_synonym assignment = "var \<Rightarrow> real"

fun eval :: "assignment \<Rightarrow> expr \<Rightarrow> real" where
  "eval a (Const c) = c"
| "eval a (Var w) = a w"
| "eval a (Scale k e) = k * eval a e"
| "eval a (Add e f) = eval a e + eval a f"
| "eval a (Sub e f) = eval a e - eval a f"
| "eval a (Neg e) = - eval a e"
| "eval a (LpSum es) = sum_list (map (eval a) es)"

fun holds :: "assignment \<Rightarrow> constraint \<Rightarrow> bool" where
  "holds a (e, LE, f) = (eval a e \<le> eval a f)"
| "holds a (e, EQ, f) = (eval a e = eval a f)"
| "holds a (e, GE, f) = (eval a e \<ge> eval a f)"

text \<open>
  A variable obeys its declaration: at least its lower bound when it has one, and a
  \<open>Binary\<close> variable is 0 or 1.
\<close>

fun bound_ok :: "real option \<Rightarrow> real \<Rightarrow> bool" where
  "bound_ok None z = True"
| "bound_ok (Some l) z = (l \<le> z)"

fun cat_ok :: "category \<Rightarrow> real \<Rightarrow> bool" where
  "cat_ok Continuous z = True"
| "cat_ok Binary z = (z = 0 \<or> z = 1)"

definition var_ok :: "assignment \<Rightarrow> var_decl \<Rightarrow> bool" where
  "var_ok a d = (bound_ok (lowBound d) (a (vname d)) \<and> cat_ok (cat d) (a (vname d)))"

definition feasible :: "lp_model \<Rightarrow> assignment \<Rightarrow> bool" where
  "feasible M a = (list_all (var_ok a) (variables M) \<and> list_all (holds a) (constraints M))"

definition objective_value :: "lp_model \<Rightarrow> assignment \<Rightarrow> real" where
  "objective_value M a = eval a (objective M)"

text \<open>An optimal solution: feasible, and no feasible assignment does better.\<close>

fun no_worse :: "objsense \<Rightarrow> real \<Rightarrow> real \<Rightarrow> bool" where
  "no_worse LpMinimize z w = (z \<le> w)"
| "no_worse LpMaximize z w = (w \<le> z)"

definition optimal :: "lp_model \<Rightarrow> assignment \<Rightarrow> bool" where
  "optimal M a =
     (feasible M a \<and>
      (\<forall>b. feasible M b \<longrightarrow>
         no_worse (objsense_of M) (objective_value M a) (objective_value M b)))"

subsection \<open>Derived quantities (lines 17-21)\<close>

definition T :: "real list \<Rightarrow> real" where
  "T S = sum_list S"

definition R :: "nat \<Rightarrow> real list \<Rightarrow> real list \<Rightarrow> real" where
  "R m S r = sum_list (map (\<lambda>j. S ! j * r ! j) [0..<m])"

definition t :: "nat \<Rightarrow> real list \<Rightarrow> real list \<Rightarrow> real list" where
  "t n p S = map (\<lambda>i. p ! i * T S) [0..<n]"

definition q :: "nat \<Rightarrow> nat \<Rightarrow> real list \<Rightarrow> real list \<Rightarrow> real list \<Rightarrow> real list" where
  "q m n p S r = map (\<lambda>i. p ! i * R m S r) [0..<n]"

subsection \<open>Constants of the script\<close>

text \<open>
  The literals \<open>50\<close> and \<open>10\<close> of the linking constraints (lines 44-45) and the weights
  \<open>alpha = 1.0\<close>, \<open>beta = 0.001\<close> of lines 60-61.
\<close>

definition maxPerAssignment :: real where
  "maxPerAssignment = 50"

definition minPerAssignment :: real where
  "minPerAssignment = 10"

definition alpha :: real where
  "alpha = 1"

definition beta :: real where
  "beta = 1 / 1000"

subsection \<open>Building the model (lines 23-62)\<close>

definition x_decls :: "nat \<Rightarrow> nat \<Rightarrow> var_decl list" where
  "x_decls m n =
     concat (map (\<lambda>i. map (\<lambda>j. \<lparr>vname = X i j, lowBound = Some 0, cat = Continuous\<rparr>) [0..<m])
       [0..<n])"

definition y_decls :: "nat \<Rightarrow> nat \<Rightarrow> var_decl list" where
  "y_decls m n =
     concat (map (\<lambda>i. map (\<lambda>j. \<lparr>vname = Y i j, lowBound = None, cat = Binary\<rparr>) [0..<m])
       [0..<n])"

definition u_decls :: "nat \<Rightarrow> var_decl list" where
  "u_decls n = map (\<lambda>i. \<lparr>vname = U i, lowBound = Some 0, cat = Continuous\<rparr>) [0..<n]"

definition v_decls :: "nat \<Rightarrow> var_decl list" where
  "v_decls n = map (\<lambda>i. \<lparr>vname = V i, lowBound = Some 0, cat = Continuous\<rparr>) [0..<n]"

text \<open>Lines 38-39: one equality per site.\<close>

definition demand_constraints :: "nat \<Rightarrow> nat \<Rightarrow> real list \<Rightarrow> constraint list" where
  "demand_constraints m n S =
     map (\<lambda>j. (LpSum (map (\<lambda>i. Var (X i j)) [0..<n]), EQ, Const (S ! j))) [0..<m]"

text \<open>Lines 42-45: two linking inequalities per pair.\<close>

definition linking_constraints :: "nat \<Rightarrow> nat \<Rightarrow> constraint list" where
  "linking_constraints m n =
     concat (map (\<lambda>i. concat (map (\<lambda>j.
        [(Var (X i j), LE, Scale maxPerAssignment (Var (Y i j))),
         (Var (X i j), GE, Scale minPerAssignment (Var (Y i j)))]) [0..<m])) [0..<n])"

text \<open>Lines 48-51 and 54-57: the deviation inequalities.\<close>

definition total_tons :: "nat \<Rightarrow> nat \<Rightarrow> expr" where
  "total_tons m i = LpSum (map (\<lambda>j. Var (X i j)) [0..<m])"

definition total_rev :: "nat \<Rightarrow> real list \<Rightarrow> nat \<Rightarrow> expr" where
  "total_rev m r i = LpSum (map (\<lambda>j. Scale (r ! j) (Var (X i j))) [0..<m])"

definition tonnage_constraints :: "nat \<Rightarrow> nat \<Rightarrow> real list \<Rightarrow> constraint list" where
  "tonnage_constraints m n ts =
     concat (map (\<lambda>i.
        [(Var (U i), GE, Sub (total_tons m i) (Const (ts ! i))),
         (Var (U i), GE, Neg (Sub (total_tons m i) (Const (ts ! i))))]) [0..<n])"

definition revenue_constraints :: "nat \<Rightarrow> nat \<Rightarrow> real list \<Rightarrow> real list \<Rightarrow> constraint list" where
  "revenue_constraints m n r qs =
     concat (map (\<lambda>i.
        [(Var (V i), GE, Sub (total_rev m r i) (Const (qs ! i))),
         (Var (V i), GE, Neg (Sub (total_rev m r i) (Const (qs ! i))))]) [0..<n])"

text \<open>Line 62: the objective.\<close>

definition objective_expr :: "nat \<Rightarrow> expr" where
  "objective_expr n =
     Add (Scale alpha (LpSum (map (\<lambda>i. Var (U i)) [0..<n])))
         (Scale beta (LpSum (map (\<lambda>i. Var (V i)) [0..<n])))"

definition model :: "nat \<Rightarrow> nat \<Rightarrow> real list \<Rightarrow> real list \<Rightarrow> real list \<Rightarrow> lp_model" where
  "model m n S r p =
     \<lparr>objsense_of = LpMinimize,
      variables = x_decls m n @ y_decls m n @ u_decls n @ v_decls n,
      constraints =
        demand_constraints m n S @ linking_constraints m n @
        tonnage_constraints m n (t n p S) @ revenue_constraints m n r (q m n p S r),
      objective = objective_expr n\<rparr>"

text \<open>
  The script checks nothing about its input. Line 19 reads \<open>S[j]\<close> and \<open>r[j]\<close> for
  \<open>j < m\<close> and lines 20-21 read \<open>p[i]\<close> for \<open>i < n\<close>; a list that is too short raises
  \<open>IndexError\<close> there, before the model exists. Nothing else can fail up to line 62.
\<close>

definition build :: "nat \<Rightarrow> nat \<Rightarrow> real list \<Rightarrow> real list \<Rightarrow> real list \<Rightarrow> error + lp_model" where
  "build m n S r p =
     (if length S < m \<or> length r < m then Inl IndexError
      else if length p < n then Inl IndexError
      else Inr (model m n S r p))"

subsection \<open>The solver call (line 65)\<close>

text \<open>
  \<open>prob.solve\<close> is an external call: it returns a status and leaves a value in every
  variable. The script drops the status.
\<close>

datatype status =
  LpStatusOptimal | LpStatusNotSolved | LpStatusInfeasible | LpStatusUnbounded | LpStatusUndefined

type_synonym solver = "lp_model \<Rightarrow> status \<times> assignment"

subsection \<open>Extraction (lines 67-70)\<close>

record allocation =
  x_sol :: "real list list"
  tons_assigned :: "real list"
  revenue_assigned :: "real list"

text \<open>Line 68: the matrix of the values of \<open>x\<close>, read as they are.\<close>

definition read_x :: "nat \<Rightarrow> nat \<Rightarrow> assignment \<Rightarrow> real list list" where
  "read_x n m a = map (\<lambda>i. map (\<lambda>j. a (X i j)) [0..<m]) [0..<n]"

text \<open>
  \<open>.sum(axis=1)\<close>: with no rows at all NumPy has built a one-dimensional array, and
  axis 1 does not exist.
\<close>

definition sum_axis1 :: "real list list \<Rightarrow> error + real list" where
  "sum_axis1 rows = (if rows = [] then Inl AxisError else Inr (map sum_list rows))"

text \<open>
  \<open>x_sol * np.array(r)\<close> for an array of row length \<open>m\<close> and a vector of length
  \<open>k\<close>, by NumPy's broadcasting: equal lengths multiply elementwise, a length of 1 on
  either side is stretched, anything else is a \<open>ValueError\<close>.
\<close>

definition times_row :: "nat \<Rightarrow> real list list \<Rightarrow> real list \<Rightarrow> error + real list list" where
  "times_row m rows r =
     (if m = length r then Inr (map (\<lambda>row. map (\<lambda>j. row ! j * r ! j) [0..<m]) rows)
      else if m = 1 then Inr (map (\<lambda>row. map (\<lambda>c. row ! 0 * c) r) rows)
      else if length r = 1 then Inr (map (\<lambda>row. map (\<lambda>z. z * r ! 0) row) rows)
      else Inl ValueError)"

definition extract_solution :: "nat \<Rightarrow> nat \<Rightarrow> real list \<Rightarrow> assignment \<Rightarrow> error + allocation" where
  "extract_solution n m r a =
     (let xs = read_x n m a in
      case sum_axis1 xs of
        Inl e \<Rightarrow> Inl e
      | Inr tons \<Rightarrow>
          (case times_row m xs r of
             Inl e \<Rightarrow> Inl e
           | Inr weighted \<Rightarrow>
               (case sum_axis1 weighted of
                  Inl e \<Rightarrow> Inl e
                | Inr revenue \<Rightarrow>
                    Inr \<lparr>x_sol = xs, tons_assigned = tons, revenue_assigned = revenue\<rparr>)))"

text \<open>
  The script's variables around extraction: the values the solver left, and the result once
  lines 68-70 have run. Running the three lines binds the result and touches nothing else.
\<close>

record script_state =
  varValue :: assignment
  extracted :: "allocation option"

definition extract_step :: "nat \<Rightarrow> nat \<Rightarrow> real list \<Rightarrow> script_state \<Rightarrow> error + script_state" where
  "extract_step n m r s =
     (case extract_solution n m r (varValue s) of
        Inl e \<Rightarrow> Inl e
      | Inr res \<Rightarrow> Inr (s\<lparr>extracted := Some res\<rparr>))"

subsection \<open>The whole run (lines 17-70)\<close>

definition run ::
  "solver \<Rightarrow> nat \<Rightarrow> nat \<Rightarrow> real list \<Rightarrow> real list \<Rightarrow> real list \<Rightarrow> error + allocation" where
  "run solve m n S r p =
     (case build m n S r p of
        Inl e \<Rightarrow> Inl e
      | Inr M \<Rightarrow> (case solve M of (st, a) \<Rightarrow> extract_solution n m r a))"

subsection \<open>Concrete inputs\<close>

text \<open>
  A small dataset that can be checked by hand: two sites with demand 20 and 30 at rates 2
  and 3, two transporters with quota one half each. Every transporter takes 10 tons of the
  first site and 15 of the second, which meets both targets exactly.
\<close>

fun scenario_assignment :: assignment where
  "scenario_assignment (X i j) = (if j = 0 then 10 else 15)"
| "scenario_assignment (Y i j) = 1"
| "scenario_assignment (U i) = 0"
| "scenario_assignment (V i) = 0"

text \<open>
  Values a solver could leave behind that no feasible assignment has: the first site gets a
  billionth of a ton, the second 5 tons, and the deviation variables are far from the
  deviations.
\<close>

fun sloppy_assignment :: assignment where
  "sloppy_assignment (X i j) = (if j = 0 then 1 / 10 ^ 9 else 5)"
| "sloppy_assignment (Y i j) = 1"
| "sloppy_assignment (U i) = 1000"
| "sloppy_assignment (V i) = 1000"

text \<open>
  One transporter and two sites: a site without demand beside one of 20 tons, and two
  sites of 30 tons each.
\<close>

fun zero_site_assignment :: assignment where
  "zero_site_assignment (X i j) = (if j = 0 then 0 else 20)"
| "zero_site_assignment (Y i j) = (if j = 0 then 0 else 1)"
| "zero_site_assignment (U i) = 0"
| "zero_site_assignment (V i) = 0"

fun full_assignment :: assignment where
  "full_assignment (X i j) = 30"
| "full_assignment (Y i j) = 1"
| "full_assignment (U i) = 0"
| "full_assignment (V i) = 0"

definition zero_assignment :: assignment where
  "zero_assignment = (\<lambda>w. 0)"

text \<open>A solver that reports a given status and leaves given values.\<close>

definition reporting :: "status \<Rightarrow> assignment \<Rightarrow> solver" where
  "reporting st a = (\<lambda>M. (st, a))"

section \<open>Properties\<close>

subsection \<open>Sums over ranges and lists of constraints\<close>

lemma sum_list_upt: "sum_list (map f [0..<n]) = (\<Sum>i<n. f i)"
  by (simp add: interv_sum_list_conv_sum_set_nat atLeast0LessThan)

lemma upt_2: "[0..<2] = [0, 1]"
  by (simp add: upt_rec)

lemma lessThan_2: "{..<2::nat} = {0, 1}"
  by auto

lemma list_all_map_upt: "list_all P (map f [0..<n]) \<longleftrightarrow> (\<forall>i<n. P (f i))"
  by (auto simp: list_all_iff)

lemma list_all_concat_upt:
  "list_all P (concat (map f [0..<n])) \<longleftrightarrow> (\<forall>i<n. list_all P (f i))"
  by (auto simp: list_all_iff)

lemma sum_replace:
  fixes g :: "nat \<Rightarrow> real"
  assumes "i < n"
  shows "(\<Sum>k<n. if k = i then z else g k) = (\<Sum>k<n. g k) - g i + z"
proof -
  have fin: "finite {..<n}" and mem: "i \<in> {..<n}" using assms by simp_all
  have rest: "(\<Sum>k\<in>{..<n} - {i}. if k = i then z else g k) = (\<Sum>k\<in>{..<n} - {i}. g k)"
    by (rule sum.cong) auto
  have "(\<Sum>k<n. if k = i then z else g k) = z + (\<Sum>k\<in>{..<n} - {i}. if k = i then z else g k)"
    using sum.remove [OF fin mem, of "\<lambda>k. if k = i then z else g k"] by simp
  moreover have "(\<Sum>k<n. g k) = g i + (\<Sum>k\<in>{..<n} - {i}. g k)"
    using sum.remove [OF fin mem, of g] by simp
  ultimately show ?thesis using rest by linarith
qed

subsection \<open>What the built model says\<close>

lemma build_Inr:
  "build m n S r p = Inr M \<longleftrightarrow>
     m \<le> length S \<and> m \<le> length r \<and> n \<le> length p \<and> M = model m n S r p"
  by (auto simp: build_def)

lemma eval_total_tons: "eval a (total_tons m i) = (\<Sum>j<m. a (X i j))"
  by (simp add: total_tons_def comp_def sum_list_upt)

lemma eval_total_rev: "eval a (total_rev m r i) = (\<Sum>j<m. r ! j * a (X i j))"
  by (simp add: total_rev_def comp_def sum_list_upt)

lemma x_decls_ok: "list_all (var_ok a) (x_decls m n) \<longleftrightarrow> (\<forall>i<n. \<forall>j<m. 0 \<le> a (X i j))"
  by (simp add: x_decls_def list_all_concat_upt list_all_map_upt var_ok_def)

lemma y_decls_ok:
  "list_all (var_ok a) (y_decls m n) \<longleftrightarrow> (\<forall>i<n. \<forall>j<m. a (Y i j) = 0 \<or> a (Y i j) = 1)"
  by (simp add: y_decls_def list_all_concat_upt list_all_map_upt var_ok_def)

lemma u_decls_ok: "list_all (var_ok a) (u_decls n) \<longleftrightarrow> (\<forall>i<n. 0 \<le> a (U i))"
  by (simp add: u_decls_def list_all_map_upt var_ok_def)

lemma v_decls_ok: "list_all (var_ok a) (v_decls n) \<longleftrightarrow> (\<forall>i<n. 0 \<le> a (V i))"
  by (simp add: v_decls_def list_all_map_upt var_ok_def)

lemma vars_ok_iff:
  "list_all (var_ok a) (variables (model m n S r p)) \<longleftrightarrow>
     (\<forall>i<n. \<forall>j<m. 0 \<le> a (X i j) \<and> (a (Y i j) = 0 \<or> a (Y i j) = 1)) \<and>
     (\<forall>i<n. 0 \<le> a (U i) \<and> 0 \<le> a (V i))"
  unfolding model_def by (simp add: x_decls_ok y_decls_ok u_decls_ok v_decls_ok) blast

lemma demand_ok_iff:
  "list_all (holds a) (demand_constraints m n S) \<longleftrightarrow> (\<forall>j<m. (\<Sum>i<n. a (X i j)) = S ! j)"
  by (simp add: demand_constraints_def list_all_map_upt comp_def sum_list_upt)

lemma linking_ok_iff:
  "list_all (holds a) (linking_constraints m n) \<longleftrightarrow>
     (\<forall>i<n. \<forall>j<m. a (X i j) \<le> maxPerAssignment * a (Y i j) \<and>
                     minPerAssignment * a (Y i j) \<le> a (X i j))"
  by (simp add: linking_constraints_def list_all_concat_upt)

lemma tonnage_ok_iff:
  "list_all (holds a) (tonnage_constraints m n ts) \<longleftrightarrow>
     (\<forall>i<n. \<bar>(\<Sum>j<m. a (X i j)) - ts ! i\<bar> \<le> a (U i))"
  by (simp add: tonnage_constraints_def list_all_concat_upt eval_total_tons abs_le_iff)

lemma revenue_ok_iff:
  "list_all (holds a) (revenue_constraints m n r qs) \<longleftrightarrow>
     (\<forall>i<n. \<bar>(\<Sum>j<m. r ! j * a (X i j)) - qs ! i\<bar> \<le> a (V i))"
  by (simp add: revenue_constraints_def list_all_concat_upt eval_total_rev abs_le_iff)

text \<open>Feasibility of the built model, spelled out.\<close>

lemma feasible_model_iff:
  "feasible (model m n S r p) a \<longleftrightarrow>
     (\<forall>i<n. \<forall>j<m. 0 \<le> a (X i j) \<and> (a (Y i j) = 0 \<or> a (Y i j) = 1)) \<and>
     (\<forall>i<n. 0 \<le> a (U i) \<and> 0 \<le> a (V i)) \<and>
     (\<forall>j<m. (\<Sum>i<n. a (X i j)) = S ! j) \<and>
     (\<forall>i<n. \<forall>j<m. a (X i j) \<le> maxPerAssignment * a (Y i j) \<and>
                     minPerAssignment * a (Y i j) \<le> a (X i j)) \<and>
     (\<forall>i<n. \<bar>(\<Sum>j<m. a (X i j)) - p ! i * T S\<bar> \<le> a (U i)) \<and>
     (\<forall>i<n. \<bar>(\<Sum>j<m. r ! j * a (X i j)) - p ! i * R m S r\<bar> \<le> a (V i))"
proof -
  have c: "constraints (model m n S r p) =
      demand_constraints m n S @ linking_constraints m n @
      tonnage_constraints m n (t n p S) @ revenue_constraints m n r (q m n p S r)"
    by (simp add: model_def)
  have tq: "\<And>i. i < n \<Longrightarrow> t n p S ! i = p ! i * T S"
    "\<And>i. i < n \<Longrightarrow> q m n p S r ! i = p ! i * R m S r"
    by (simp_all add: t_def q_def)
  show ?thesis
    unfolding feasible_def c list_all_append vars_ok_iff demand_ok_iff linking_ok_iff
      tonnage_ok_iff revenue_ok_iff
    using tq by auto
qed

lemma objective_model:
  "objective_value (model m n S r p) a = alpha * (\<Sum>i<n. a (U i)) + beta * (\<Sum>i<n. a (V i))"
  by (simp add: objective_value_def model_def objective_expr_def comp_def sum_list_upt)

lemma optimal_model:
  "optimal (model m n S r p) a \<longleftrightarrow>
     feasible (model m n S r p) a \<and>
     (\<forall>b. feasible (model m n S r p) b \<longrightarrow>
        objective_value (model m n S r p) a \<le> objective_value (model m n S r p) b)"
proof -
  have "objsense_of (model m n S r p) = LpMinimize" by (simp add: model_def)
  then show ?thesis by (simp add: optimal_def)
qed

lemma objective_nonneg:
  assumes "feasible (model m n S r p) b"
  shows "0 \<le> objective_value (model m n S r p) b"
proof -
  from assms have "\<forall>i<n. 0 \<le> b (U i) \<and> 0 \<le> b (V i)"
    unfolding feasible_model_iff by blast
  then have "0 \<le> (\<Sum>i<n. b (U i))" "0 \<le> (\<Sum>i<n. b (V i))"
    by (auto intro: sum_nonneg)
  then show ?thesis by (simp add: objective_model alpha_def beta_def)
qed

subsection \<open>Membership of the generated constraints\<close>

lemma constraints_model:
  "set (constraints (model m n S r p)) =
     set (demand_constraints m n S) \<union> set (linking_constraints m n) \<union>
     set (tonnage_constraints m n (t n p S)) \<union> set (revenue_constraints m n r (q m n p S r))"
  by (auto simp: model_def)

lemma demand_mem:
  "j < m \<Longrightarrow>
     (LpSum (map (\<lambda>i. Var (X i j)) [0..<n]), EQ, Const (S ! j)) \<in> set (demand_constraints m n S)"
  by (force simp: demand_constraints_def)

lemma linking_mem:
  assumes "i < n" "j < m"
  shows "(Var (X i j), LE, Scale maxPerAssignment (Var (Y i j))) \<in> set (linking_constraints m n)"
    and "(Var (X i j), GE, Scale minPerAssignment (Var (Y i j))) \<in> set (linking_constraints m n)"
  using assms by (auto simp: linking_constraints_def)

lemma tonnage_mem:
  assumes "i < n"
  shows "(Var (U i), GE, Sub (total_tons m i) (Const (ts ! i))) \<in> set (tonnage_constraints m n ts)"
    and "(Var (U i), GE, Neg (Sub (total_tons m i) (Const (ts ! i))))
           \<in> set (tonnage_constraints m n ts)"
  using assms by (auto simp: tonnage_constraints_def)

lemma revenue_mem:
  assumes "i < n"
  shows "(Var (V i), GE, Sub (total_rev m r i) (Const (qs ! i)))
           \<in> set (revenue_constraints m n r qs)"
    and "(Var (V i), GE, Neg (Sub (total_rev m r i) (Const (qs ! i))))
           \<in> set (revenue_constraints m n r qs)"
  using assms by (auto simp: revenue_constraints_def)

lemma y_decl_mem:
  "i < n \<Longrightarrow> j < m \<Longrightarrow>
     \<lparr>vname = Y i j, lowBound = None, cat = Binary\<rparr> \<in> set (variables (model m n S r p))"
proof -
  assume "i < n" "j < m"
  then have "\<lparr>vname = Y i j, lowBound = None, cat = Binary\<rparr> \<in> set (y_decls m n)"
    by (force simp: y_decls_def)
  then show ?thesis by (simp add: model_def)
qed

subsection \<open>The hand-checked scenario\<close>

lemma scenario_build:
  "build 2 2 [20, 30] [2, 3] [1/2, 1/2] = Inr (model 2 2 [20, 30] [2, 3] [1/2, 1/2])"
  by (simp add: build_def)

lemma scenario_feasible:
  "feasible (model 2 2 [20, 30] [2, 3] [1/2, 1/2]) scenario_assignment"
  by (simp add: feasible_model_iff lessThan_2 less_2_cases_iff T_def R_def upt_2
      minPerAssignment_def maxPerAssignment_def)

lemma scenario_optimal:
  "optimal (model 2 2 [20, 30] [2, 3] [1/2, 1/2]) scenario_assignment"
proof -
  have "objective_value (model 2 2 [20, 30] [2, 3] [1/2, 1/2]) scenario_assignment = 0"
    by (simp add: objective_model)
  then show ?thesis
    using scenario_feasible objective_nonneg by (simp add: optimal_model)
qed

subsection \<open>Demand coverage\<close>

text \<open>
  C1. For every site \<open>j < m\<close> the built model contains the equality
  \<open>lpSum(x[i][j] for i in range(n)) == S[j]\<close>, and every feasible assignment of the model
  serves the demand of site \<open>j\<close> exactly.
\<close>

theorem demand_coverage:
  "build m n S r p = Inr M \<Longrightarrow> j < m \<Longrightarrow>
     (LpSum (map (\<lambda>i. Var (X i j)) [0..<n]), EQ, Const (S ! j)) \<in> set (constraints M) \<and>
     (feasible M a \<longrightarrow> (\<Sum>i<n. a (X i j)) = S ! j)"
  by (simp add: build_Inr constraints_model demand_mem feasible_model_iff)

theorem demand_coverage_witness:
  "build 2 2 [20, 30] [2, 3] [1/2, 1/2] = Inr (model 2 2 [20, 30] [2, 3] [1/2, 1/2]) \<and>
   feasible (model 2 2 [20, 30] [2, 3] [1/2, 1/2]) scenario_assignment \<and>
   (LpSum (map (\<lambda>i. Var (X i 1)) [0..<2]), EQ, Const 30)
      \<in> set (constraints (model 2 2 [20, 30] [2, 3] [1/2, 1/2])) \<and>
   (\<Sum>i<2. scenario_assignment (X i 1)) = 30"
proof -
  have j: "(1::nat) < 2" by simp
  show ?thesis
    using scenario_build scenario_feasible
      demand_coverage [OF scenario_build j, of scenario_assignment]
    by simp
qed

subsection \<open>Linking constraints and semi-continuity\<close>

text \<open>
  C2. For every pair \<open>(i, j)\<close> the built model contains \<open>x[i][j] <= 50 * y[i][j]\<close> and
  \<open>x[i][j] >= 10 * y[i][j]\<close> with \<open>y[i][j]\<close> declared binary. Hence in every feasible
  assignment \<open>x[i][j]\<close> is 0 or lies between the minimum 10 and the maximum 50, and
  \<open>y[i][j]\<close> is 1 exactly when \<open>x[i][j]\<close> is positive.
\<close>

theorem linking_semicontinuous:
  "build m n S r p = Inr M \<Longrightarrow> i < n \<Longrightarrow> j < m \<Longrightarrow>
     (Var (X i j), LE, Scale maxPerAssignment (Var (Y i j))) \<in> set (constraints M) \<and>
     (Var (X i j), GE, Scale minPerAssignment (Var (Y i j))) \<in> set (constraints M) \<and>
     \<lparr>vname = Y i j, lowBound = None, cat = Binary\<rparr> \<in> set (variables M) \<and>
     (feasible M a \<longrightarrow>
        (a (X i j) = 0 \<or> (minPerAssignment \<le> a (X i j) \<and> a (X i j) \<le> maxPerAssignment)) \<and>
        (a (Y i j) = 0 \<or> a (Y i j) = 1) \<and>
        (a (Y i j) = 1 \<longleftrightarrow> 0 < a (X i j)))"
proof -
  assume b: "build m n S r p = Inr M" and i: "i < n" and j: "j < m"
  then have M: "M = model m n S r p" by (simp add: build_Inr)
  have sem: "(a (X i j) = 0 \<or> (minPerAssignment \<le> a (X i j) \<and> a (X i j) \<le> maxPerAssignment)) \<and>
        (a (Y i j) = 0 \<or> a (Y i j) = 1) \<and> (a (Y i j) = 1 \<longleftrightarrow> 0 < a (X i j))"
    if f: "feasible M a"
  proof -
    from f i j have y: "a (Y i j) = 0 \<or> a (Y i j) = 1"
      and le: "a (X i j) \<le> maxPerAssignment * a (Y i j)"
      and ge: "minPerAssignment * a (Y i j) \<le> a (X i j)"
      and x0: "0 \<le> a (X i j)"
      unfolding M feasible_model_iff by blast+
    from y le ge x0 show ?thesis
      by (auto simp: minPerAssignment_def maxPerAssignment_def)
  qed
  have mem: "(Var (X i j), LE, Scale maxPerAssignment (Var (Y i j))) \<in> set (constraints M)"
    "(Var (X i j), GE, Scale minPerAssignment (Var (Y i j))) \<in> set (constraints M)"
    "\<lparr>vname = Y i j, lowBound = None, cat = Binary\<rparr> \<in> set (variables M)"
    using i j by (simp_all add: M constraints_model linking_mem y_decl_mem)
  from mem sem show ?thesis by blast
qed

theorem linking_semicontinuous_witness:
  "build 2 2 [20, 30] [2, 3] [1/2, 1/2] = Inr (model 2 2 [20, 30] [2, 3] [1/2, 1/2]) \<and>
   feasible (model 2 2 [20, 30] [2, 3] [1/2, 1/2]) scenario_assignment \<and>
   (Var (X 0 1), LE, Scale 50 (Var (Y 0 1)))
      \<in> set (constraints (model 2 2 [20, 30] [2, 3] [1/2, 1/2])) \<and>
   (Var (X 0 1), GE, Scale 10 (Var (Y 0 1)))
      \<in> set (constraints (model 2 2 [20, 30] [2, 3] [1/2, 1/2])) \<and>
   10 \<le> scenario_assignment (X 0 1) \<and> scenario_assignment (X 0 1) \<le> 50 \<and>
   scenario_assignment (Y 0 1) = 1"
proof -
  have i: "(0::nat) < 2" and j: "(1::nat) < 2" by simp_all
  show ?thesis
    using scenario_build scenario_feasible
      linking_semicontinuous [OF scenario_build i j, of scenario_assignment]
    by (simp add: minPerAssignment_def maxPerAssignment_def)
qed

subsection \<open>Deviation variables\<close>

text \<open>
  C3. For every transporter \<open>i < n\<close> the built model contains the two inequalities
  \<open>u[i] >= total_tons - t[i]\<close> and \<open>u[i] >= -(total_tons - t[i])\<close>, and the same pair
  for \<open>v[i]\<close> with \<open>total_rev\<close> and \<open>q[i]\<close>, where \<open>total_tons\<close> is the sum of
  \<open>x[i][j]\<close> over the sites, \<open>total_rev\<close> the sum of \<open>r[j] * x[i][j]\<close>, and
  \<open>t[i] = p[i] * T\<close>, \<open>q[i] = p[i] * R\<close>. At every optimal solution \<open>u[i]\<close> is the
  absolute tonnage deviation and \<open>v[i]\<close> the absolute revenue deviation.
\<close>

theorem deviation_linearization:
  "build m n S r p = Inr M \<Longrightarrow> i < n \<Longrightarrow>
     (Var (U i), GE, Sub (total_tons m i) (Const (t n p S ! i))) \<in> set (constraints M) \<and>
     (Var (U i), GE, Neg (Sub (total_tons m i) (Const (t n p S ! i)))) \<in> set (constraints M) \<and>
     (Var (V i), GE, Sub (total_rev m r i) (Const (q m n p S r ! i))) \<in> set (constraints M) \<and>
     (Var (V i), GE, Neg (Sub (total_rev m r i) (Const (q m n p S r ! i)))) \<in> set (constraints M) \<and>
     eval a (total_tons m i) = (\<Sum>j<m. a (X i j)) \<and>
     eval a (total_rev m r i) = (\<Sum>j<m. r ! j * a (X i j)) \<and>
     t n p S ! i = p ! i * T S \<and> q m n p S r ! i = p ! i * R m S r \<and>
     (optimal M a \<longrightarrow>
        a (U i) = \<bar>(\<Sum>j<m. a (X i j)) - t n p S ! i\<bar> \<and>
        a (V i) = \<bar>(\<Sum>j<m. r ! j * a (X i j)) - q m n p S r ! i\<bar>)"
proof -
  assume b: "build m n S r p = Inr M" and i: "i < n"
  then have M: "M = model m n S r p" by (simp add: build_Inr)
  let ?tons = "\<Sum>j<m. a (X i j)"
  let ?rev = "\<Sum>j<m. r ! j * a (X i j)"
  have ti: "t n p S ! i = p ! i * T S" and qi: "q m n p S r ! i = p ! i * R m S r"
    using i by (simp_all add: t_def q_def)
  have mem:
    "(Var (U i), GE, Sub (total_tons m i) (Const (t n p S ! i))) \<in> set (constraints M)"
    "(Var (U i), GE, Neg (Sub (total_tons m i) (Const (t n p S ! i)))) \<in> set (constraints M)"
    "(Var (V i), GE, Sub (total_rev m r i) (Const (q m n p S r ! i))) \<in> set (constraints M)"
    "(Var (V i), GE, Neg (Sub (total_rev m r i) (Const (q m n p S r ! i)))) \<in> set (constraints M)"
    using i by (simp_all add: M constraints_model tonnage_mem revenue_mem)
  have dev: "a (U i) = \<bar>?tons - t n p S ! i\<bar> \<and> a (V i) = \<bar>?rev - q m n p S r ! i\<bar>"
    if opt: "optimal M a"
  proof -
    from opt have f: "feasible (model m n S r p) a"
      and least: "\<And>b. feasible (model m n S r p) b \<Longrightarrow>
        objective_value (model m n S r p) a \<le> objective_value (model m n S r p) b"
      unfolding M optimal_model by blast+
    from f i have geU: "\<bar>?tons - p ! i * T S\<bar> \<le> a (U i)"
      and geV: "\<bar>?rev - p ! i * R m S r\<bar> \<le> a (V i)"
      unfolding feasible_model_iff by blast+
    have fU: "feasible (model m n S r p) (a(U i := \<bar>?tons - p ! i * T S\<bar>))"
      using f unfolding feasible_model_iff by auto
    have fV: "feasible (model m n S r p) (a(V i := \<bar>?rev - p ! i * R m S r\<bar>))"
      using f unfolding feasible_model_iff by auto
    have "alpha * a (U i) \<le> alpha * \<bar>?tons - p ! i * T S\<bar>"
      using least [OF fU] by (simp add: objective_model sum_replace [OF i] algebra_simps)
    then have leU: "a (U i) \<le> \<bar>?tons - p ! i * T S\<bar>" by (simp add: alpha_def)
    have "beta * a (V i) \<le> beta * \<bar>?rev - p ! i * R m S r\<bar>"
      using least [OF fV] by (simp add: objective_model sum_replace [OF i] algebra_simps)
    then have leV: "a (V i) \<le> \<bar>?rev - p ! i * R m S r\<bar>" by (simp add: beta_def)
    from geU leU geV leV show ?thesis by (simp add: ti qi)
  qed
  from mem dev ti qi show ?thesis
    by (simp add: eval_total_tons eval_total_rev)
qed

theorem deviation_linearization_witness:
  "build 2 2 [20, 30] [2, 3] [1/2, 1/2] = Inr (model 2 2 [20, 30] [2, 3] [1/2, 1/2]) \<and>
   optimal (model 2 2 [20, 30] [2, 3] [1/2, 1/2]) scenario_assignment \<and>
   t 2 [1/2, 1/2] [20, 30] ! 1 = 25 \<and>
   q 2 2 [1/2, 1/2] [20, 30] [2, 3] ! 1 = 65 \<and>
   scenario_assignment (U 1) = \<bar>(\<Sum>j<2. scenario_assignment (X 1 j)) - 25\<bar> \<and>
   scenario_assignment (V 1) = \<bar>(\<Sum>j<2. [2, 3] ! j * scenario_assignment (X 1 j)) - 65\<bar>"
proof -
  have i: "(1::nat) < 2" by simp
  have tq: "t 2 [1/2, 1/2] [20, 30] ! 1 = 25" "q 2 2 [1/2, 1/2] [20, 30] [2, 3] ! 1 = 65"
    by (simp_all add: t_def q_def T_def R_def upt_2)
  show ?thesis
    using scenario_build scenario_optimal tq
      deviation_linearization [OF scenario_build i, of scenario_assignment]
    by simp
qed

subsection \<open>Extraction\<close>

lemma read_x_nonempty: "0 < n \<Longrightarrow> read_x n m a \<noteq> []"
  by (simp add: read_x_def)

lemma tons_of_read_x:
  "map sum_list (read_x n m a) = map (\<lambda>i. \<Sum>j<m. a (X i j)) [0..<n]"
  by (simp add: read_x_def comp_def sum_list_upt)


lemma extract_Inr:
  assumes n: "0 < n" and r: "length r = m"
  shows "extract_solution n m r a =
     Inr \<lparr>x_sol = map (\<lambda>i. map (\<lambda>j. a (X i j)) [0..<m]) [0..<n],
          tons_assigned = map (\<lambda>i. \<Sum>j<m. a (X i j)) [0..<n],
          revenue_assigned = map (\<lambda>i. \<Sum>j<m. r ! j * a (X i j)) [0..<n]\<rparr>"
proof -
  have ne: "read_x n m a \<noteq> []" using n by (rule read_x_nonempty)
  have tr: "times_row m (read_x n m a) r =
      Inr (map (\<lambda>row. map (\<lambda>j. row ! j * r ! j) [0..<m]) (read_x n m a))"
    using r by (simp add: times_row_def)
  have ne': "map (\<lambda>row. map (\<lambda>j. row ! j * r ! j) [0..<m]) (read_x n m a) \<noteq> []"
    using ne by simp
  have rev: "map sum_list (map (\<lambda>row. map (\<lambda>j. row ! j * r ! j) [0..<m]) (read_x n m a)) =
      map (\<lambda>i. \<Sum>j<m. r ! j * a (X i j)) [0..<n]"
  proof -
    have "(\<Sum>k<m. map (\<lambda>j. a (X i j)) [0..<m] ! k * r ! k) = (\<Sum>j<m. r ! j * a (X i j))" for i
      by (rule sum.cong) (simp_all add: mult.commute)
    then show ?thesis by (simp add: read_x_def comp_def sum_list_upt)
  qed
  have s1: "sum_axis1 (read_x n m a) = Inr (map (\<lambda>i. \<Sum>j<m. a (X i j)) [0..<n])"
    using ne by (simp add: sum_axis1_def tons_of_read_x)
  have s2: "sum_axis1 (map (\<lambda>row. map (\<lambda>j. row ! j * r ! j) [0..<m]) (read_x n m a)) =
      Inr (map (\<lambda>i. \<Sum>j<m. r ! j * a (X i j)) [0..<n])"
    using ne' rev by (simp only: sum_axis1_def if_False)
  show ?thesis
    by (simp add: extract_solution_def s1 tr s2) (simp add: read_x_def)
qed

lemma extract_depends_on_x:
  assumes "\<And>i j. b (X i j) = a (X i j)"
  shows "extract_solution n m r b = extract_solution n m r a"
proof -
  have "read_x n m b = read_x n m a" using assms by (simp add: read_x_def)
  then show ?thesis by (simp add: extract_solution_def)
qed

text \<open>
  C4, as the script has it. For at least one transporter and as many rates as sites,
  extraction returns the raw values of \<open>x\<close> unchanged as \<open>x_sol\<close>, the row sums as
  \<open>tons_assigned\<close> and the rate-weighted row sums as \<open>revenue_assigned\<close>. It looks at
  no variable but \<open>x\<close>, so the solver's \<open>u\<close> and \<open>v\<close> play no part; nothing is
  clamped, nothing is verified and no reconciliation error exists.
\<close>

theorem extraction_reads_raw:
  "0 < n \<Longrightarrow> length r = m \<Longrightarrow>
     extract_solution n m r a =
       Inr \<lparr>x_sol = map (\<lambda>i. map (\<lambda>j. a (X i j)) [0..<m]) [0..<n],
            tons_assigned = map (\<lambda>i. \<Sum>j<m. a (X i j)) [0..<n],
            revenue_assigned = map (\<lambda>i. \<Sum>j<m. r ! j * a (X i j)) [0..<n]\<rparr> \<and>
     extract_solution n m r (\<lambda>w. case w of X i j \<Rightarrow> a w | Y i j \<Rightarrow> 0 | U i \<Rightarrow> 0 | V i \<Rightarrow> 0) =
       extract_solution n m r a"
  using extract_Inr [of n r m a]
    extract_depends_on_x [of "\<lambda>w. case w of X i j \<Rightarrow> a w | Y i j \<Rightarrow> 0 | U i \<Rightarrow> 0 | V i \<Rightarrow> 0" a n m r]
  by simp

theorem extraction_reads_raw_witness:
  "(0::nat) < 2 \<and> length [2, 3 :: real] = 2 \<and>
   extract_solution 2 2 [2, 3] scenario_assignment =
     Inr \<lparr>x_sol = [[10, 15], [10, 15]], tons_assigned = [25, 25], revenue_assigned = [65, 65]\<rparr>"
proof -
  have n: "(0::nat) < 2" and r: "length [2, 3 :: real] = 2" by simp_all
  show ?thesis
    using extraction_reads_raw [OF n r, of scenario_assignment]
    by (simp add: upt_2 lessThan_2)
qed

text \<open>
  A billionth of a ton stays a billionth of a ton, an assignment of 5 tons (below the
  minimum of 10) is passed on, and deviation variables that are off by a thousand raise
  nothing.
\<close>

theorem extraction_no_clamp_counterexample:
  "extract_solution 1 2 [1, 1] sloppy_assignment =
     Inr \<lparr>x_sol = [[1 / 10 ^ 9, 5]], tons_assigned = [5 + 1 / 10 ^ 9],
          revenue_assigned = [5 + 1 / 10 ^ 9]\<rparr>"
  by (simp add: extract_solution_def read_x_def sum_axis1_def times_row_def upt_2 upt_rec)

subsection \<open>Input checking\<close>




subsection \<open>Capacity\<close>

lemma site_capacity:
  assumes f: "feasible (model m n S r p) a" and j: "j < m"
  shows "S ! j \<le> real n * maxPerAssignment"
proof -
  have "a (X i j) \<le> maxPerAssignment" if "i < n" for i
  proof -
    from f that j have "a (Y i j) = 0 \<or> a (Y i j) = 1"
      and "a (X i j) \<le> maxPerAssignment * a (Y i j)"
      unfolding feasible_model_iff by blast+
    then show ?thesis by (auto simp: maxPerAssignment_def)
  qed
  then have "(\<Sum>i<n. a (X i j)) \<le> real (card {..<n}) * maxPerAssignment"
    by (intro sum_bounded_above) simp
  moreover from f j have "(\<Sum>i<n. a (X i j)) = S ! j"
    unfolding feasible_model_iff by blast
  ultimately show ?thesis by simp
qed

lemma total_capacity:
  assumes f: "feasible (model m n S r p) a"
  shows "(\<Sum>j<m. S ! j) \<le> real n * real m * maxPerAssignment"
proof -
  have "(\<Sum>j<m. S ! j) \<le> real (card {..<m}) * (real n * maxPerAssignment)"
    using site_capacity [OF f] by (intro sum_bounded_above) simp
  then show ?thesis by (simp add: mult.commute mult.left_commute)
qed

text \<open>
  C6, as the script has it. When the demand of some site exceeds \<open>n * 50\<close>, and so
  whenever the demand of the \<open>m\<close> sites together exceeds \<open>n * m * 50\<close>, the built model
  has no feasible assignment. The run itself never looks at the solver's status: its
  result is whatever extraction makes of the values the solver left.
\<close>

theorem over_capacity_infeasible:
  "build m n S r p = Inr M \<Longrightarrow>
     (((\<exists>j<m. real n * maxPerAssignment < S ! j) \<or>
       real n * real m * maxPerAssignment < (\<Sum>j<m. S ! j)) \<longrightarrow> \<not> feasible M a) \<and>
     run solve m n S r p = extract_solution n m r (snd (solve M))"
proof -
  assume b: "build m n S r p = Inr M"
  then have M: "M = model m n S r p" by (simp add: build_Inr)
  have "\<not> feasible M a" if "\<exists>j<m. real n * maxPerAssignment < S ! j"
    using that site_capacity [of m n S r p a] unfolding M by force
  moreover have "\<not> feasible M a" if "real n * real m * maxPerAssignment < (\<Sum>j<m. S ! j)"
    using that total_capacity [of m n S r p a] unfolding M by force
  moreover have "run solve m n S r p = extract_solution n m r (snd (solve M))"
    using b by (simp add: run_def split: prod.splits)
  ultimately show ?thesis by blast
qed

theorem over_capacity_infeasible_witness:
  "build 1 1 [60] [1] [1] = Inr (model 1 1 [60] [1] [1]) \<and>
   real 1 * real 1 * maxPerAssignment < (\<Sum>j<1. [60] ! j) \<and>
   \<not> feasible (model 1 1 [60] [1] [1]) full_assignment \<and>
   run (reporting LpStatusInfeasible zero_assignment) 1 1 [60] [1] [1] =
     extract_solution 1 1 [1] zero_assignment"
proof -
  have b: "build 1 1 [60] [1] [1] = Inr (model 1 1 [60] [1] [1])"
    by (simp add: build_def)
  have c: "real 1 * real 1 * maxPerAssignment < (\<Sum>j<1. [60] ! j)"
    by (simp add: maxPerAssignment_def)
  show ?thesis
    using b c
      over_capacity_infeasible
        [OF b, of full_assignment "reporting LpStatusInfeasible zero_assignment"]
    by (simp add: reporting_def)
qed

text \<open>
  Two sites of 30 tons and one transporter: the total of 60 exceeds \<open>n * 50 = 50\<close>, yet
  taking 30 tons at each site is feasible, and the run returns that allocation. One site
  of 60 tons has no feasible assignment; a solver that says so and leaves zeros still
  makes the run return an allocation, of zeros.
\<close>

theorem over_capacity_counterexample:
  "real 1 * maxPerAssignment < T [30, 30] \<and>
   feasible (model 2 1 [30, 30] [1, 1] [1]) full_assignment \<and>
   run (reporting LpStatusOptimal full_assignment) 2 1 [30, 30] [1, 1] [1] =
     Inr \<lparr>x_sol = [[30, 30]], tons_assigned = [60], revenue_assigned = [60]\<rparr> \<and>
   real 1 * maxPerAssignment < T [60] \<and>
   run (reporting LpStatusInfeasible zero_assignment) 1 1 [60] [1] [1] =
     Inr \<lparr>x_sol = [[0]], tons_assigned = [0], revenue_assigned = [0]\<rparr>"
proof -
  have "feasible (model 2 1 [30, 30] [1, 1] [1]) full_assignment"
    by (simp add: feasible_model_iff lessThan_2 less_2_cases_iff T_def R_def upt_2
        minPerAssignment_def maxPerAssignment_def)
  moreover have "run (reporting LpStatusOptimal full_assignment) 2 1 [30, 30] [1, 1] [1] =
     Inr \<lparr>x_sol = [[30, 30]], tons_assigned = [60], revenue_assigned = [60]\<rparr>"
    by (simp add: run_def build_def reporting_def extract_Inr upt_2 lessThan_2)
  moreover have "run (reporting LpStatusInfeasible zero_assignment) 1 1 [60] [1] [1] =
     Inr \<lparr>x_sol = [[0]], tons_assigned = [0], revenue_assigned = [0]\<rparr>"
    by (simp add: run_def build_def reporting_def extract_Inr zero_assignment_def)
  ultimately show ?thesis
    by (simp add: T_def maxPerAssignment_def)
qed

subsection \<open>A site without demand\<close>

lemma zero_demand_forces:
  assumes f: "feasible (model m n S r p) a" and j: "j < m" and S: "S ! j = 0" and i: "i < n"
  shows "a (X i j) = 0 \<and> a (Y i j) = 0"
proof -
  from f j S have total: "(\<Sum>k<n. a (X k j)) = 0"
    and nonneg: "\<forall>k\<in>{..<n}. 0 \<le> a (X k j)"
    unfolding feasible_model_iff by auto
  have "(\<Sum>k<n. a (X k j)) = 0 \<longleftrightarrow> (\<forall>k\<in>{..<n}. a (X k j) = 0)"
    using nonneg by (intro sum_nonneg_eq_0_iff) simp_all
  with total i have x: "a (X i j) = 0" by simp
  from f i j have "a (Y i j) = 0 \<or> a (Y i j) = 1"
    and "minPerAssignment * a (Y i j) \<le> a (X i j)"
    unfolding feasible_model_iff by blast+
  with x have "a (Y i j) = 0" by (auto simp: minPerAssignment_def)
  with x show ?thesis by simp
qed

text \<open>
  C7, as the script has it. At a site \<open>j\<close> with \<open>S[j] = 0\<close> every feasible assignment has
  \<open>x[i][j] = 0\<close> for every transporter, by the coverage equality and the lower bound 0;
  and since \<open>x[i][j] >= 10 * y[i][j]\<close>, the indicator \<open>y[i][j]\<close> is 0 as well. The
  indicators do not occur in the objective: changing one never changes its value.
\<close>

theorem zero_demand_site:
  "build m n S r p = Inr M \<Longrightarrow> j < m \<Longrightarrow> S ! j = 0 \<Longrightarrow> i < n \<Longrightarrow> feasible M a \<Longrightarrow>
     a (X i j) = 0 \<and> a (Y i j) = 0 \<and> objective_value M (a(Y i j := z)) = objective_value M a"
proof -
  assume b: "build m n S r p = Inr M" and j: "j < m" and S: "S ! j = 0" and i: "i < n"
    and f: "feasible M a"
  from b have M: "M = model m n S r p" by (simp add: build_Inr)
  have "objective_value M (a(Y i j := z)) = objective_value M a"
    by (simp add: M objective_model)
  with zero_demand_forces [of m n S r p a j i] f j S i show ?thesis
    by (simp add: M)
qed

theorem zero_demand_site_witness:
  "build 2 1 [0, 20] [1, 1] [1] = Inr (model 2 1 [0, 20] [1, 1] [1]) \<and>
   [0, 20 :: real] ! 0 = 0 \<and>
   feasible (model 2 1 [0, 20] [1, 1] [1]) zero_site_assignment \<and>
   zero_site_assignment (X 0 0) = 0 \<and> zero_site_assignment (Y 0 0) = 0 \<and>
   objective_value (model 2 1 [0, 20] [1, 1] [1]) (zero_site_assignment(Y 0 0 := 1)) =
     objective_value (model 2 1 [0, 20] [1, 1] [1]) zero_site_assignment"
proof -
  have b: "build 2 1 [0, 20] [1, 1] [1] = Inr (model 2 1 [0, 20] [1, 1] [1])"
    by (simp add: build_def)
  have j: "(0::nat) < 2" and i: "(0::nat) < 1" and S: "[0, 20 :: real] ! 0 = 0"
    by simp_all
  have f: "feasible (model 2 1 [0, 20] [1, 1] [1]) zero_site_assignment"
    by (simp add: feasible_model_iff lessThan_2 less_2_cases_iff T_def R_def upt_2
        minPerAssignment_def maxPerAssignment_def)
  show ?thesis
    using b f zero_demand_site [OF b j S i f, of 1] by simp
qed

text \<open>
  One transporter, a site without demand and a site of 20 tons: no feasible assignment has
  the indicator of the empty site at 1.
\<close>

theorem zero_demand_indicator_counterexample:
  "\<not> (\<exists>a. feasible (model 2 1 [0, 20] [1, 1] [1]) a \<and> a (Y 0 0) = 1)"
proof
  assume "\<exists>a. feasible (model 2 1 [0, 20] [1, 1] [1]) a \<and> a (Y 0 0) = 1"
  then obtain a where f: "feasible (model 2 1 [0, 20] [1, 1] [1]) a" and y: "a (Y 0 0) = 1"
    by blast
  have "a (Y 0 0) = 0"
    using zero_demand_forces [OF f, of 0 0] by simp
  with y show False by simp
qed

subsection \<open>Objective and targets\<close>

text \<open>
  C8, as the script has it. The built model minimises
  \<open>alpha * lpSum(u) + beta * lpSum(v)\<close>, where the weights are the script's own
  \<open>alpha = 1.0\<close> and \<open>beta = 0.001\<close>, and the derived quantities are \<open>T = sum(S)\<close>,
  \<open>R\<close> the sum of \<open>S[j] * r[j]\<close> over the sites, \<open>t[i] = p[i] * T\<close> and
  \<open>q[i] = p[i] * R\<close>.
\<close>

theorem objective_and_targets:
  "build m n S r p = Inr M \<Longrightarrow>
     objsense_of M = LpMinimize \<and>
     objective M =
       Add (Scale alpha (LpSum (map (\<lambda>i. Var (U i)) [0..<n])))
           (Scale beta (LpSum (map (\<lambda>i. Var (V i)) [0..<n]))) \<and>
     objective_value M a = alpha * (\<Sum>i<n. a (U i)) + beta * (\<Sum>i<n. a (V i)) \<and>
     alpha = 1 \<and> beta = 1 / 1000 \<and>
     T S = sum_list S \<and>
     R m S r = (\<Sum>j<m. S ! j * r ! j) \<and>
     length (t n p S) = n \<and> length (q m n p S r) = n \<and>
     (\<forall>i<n. t n p S ! i = p ! i * T S \<and> q m n p S r ! i = p ! i * R m S r)"
proof -
  assume b: "build m n S r p = Inr M"
  then have M: "M = model m n S r p" by (simp add: build_Inr)
  have "objsense_of M = LpMinimize" and "objective M =
       Add (Scale alpha (LpSum (map (\<lambda>i. Var (U i)) [0..<n])))
           (Scale beta (LpSum (map (\<lambda>i. Var (V i)) [0..<n])))"
    by (simp_all add: M model_def objective_expr_def)
  moreover have "objective_value M a = alpha * (\<Sum>i<n. a (U i)) + beta * (\<Sum>i<n. a (V i))"
    by (simp add: M objective_model)
  moreover have "R m S r = (\<Sum>j<m. S ! j * r ! j)"
    by (simp add: R_def sum_list_upt)
  moreover have "\<forall>i<n. t n p S ! i = p ! i * T S \<and> q m n p S r ! i = p ! i * R m S r"
    by (simp add: t_def q_def)
  ultimately show ?thesis
    by (simp add: alpha_def beta_def T_def t_def q_def)
qed

theorem objective_and_targets_witness:
  "build 2 2 [20, 30] [2, 3] [1/2, 1/2] = Inr (model 2 2 [20, 30] [2, 3] [1/2, 1/2]) \<and>
   objective_value (model 2 2 [20, 30] [2, 3] [1/2, 1/2]) sloppy_assignment = 2002 \<and>
   T [20, 30] = 50 \<and> R 2 [20, 30] [2, 3] = 130 \<and>
   t 2 [1/2, 1/2] [20, 30] = [25, 25] \<and> q 2 2 [1/2, 1/2] [20, 30] [2, 3] = [65, 65]"
proof -
  have "t 2 [1/2, 1/2] [20, 30] = [25, 25]" "q 2 2 [1/2, 1/2] [20, 30] [2, 3] = [65, 65]"
    by (simp_all add: t_def q_def T_def R_def upt_2)
  then show ?thesis
    using scenario_build objective_and_targets [OF scenario_build, of sloppy_assignment]
    by (simp add: lessThan_2)
qed

text \<open>
  The weights are not an input of the build: for one site and one transporter the
  objective is \<open>1 * u_0 + 0.001 * v_0\<close>, so with both deviation variables at 1000 its
  value is 1001, not the 5000 that weights 2 and 3 would give.
\<close>

theorem fixed_weights_counterexample:
  "objective (model 1 1 [20] [1] [1]) =
     Add (Scale 1 (LpSum [Var (U 0)])) (Scale (1 / 1000) (LpSum [Var (V 0)])) \<and>
   objective_value (model 1 1 [20] [1] [1]) sloppy_assignment = 1001 \<and>
   objective_value (model 1 1 [20] [1] [1]) sloppy_assignment \<noteq>
     2 * (\<Sum>i<1. sloppy_assignment (U i)) + 3 * (\<Sum>i<1. sloppy_assignment (V i))"
  by (simp add: model_def objective_expr_def alpha_def beta_def objective_value_def)

subsection \<open>Repeating the extraction\<close>

text \<open>
  C9. Extraction is idempotent and deterministic: it leaves the raw variable values as
  they are, so running it again on the state it produced gives the same state, with the
  same \<open>x_sol\<close>, \<open>tons_assigned\<close> and \<open>revenue_assigned\<close>.
\<close>

theorem extraction_idempotent:
  "extract_step n m r s = Inr s' \<Longrightarrow>
     extract_step n m r s' = Inr s' \<and> varValue s' = varValue s \<and>
     (\<exists>res. extracted s' = Some res \<and> extract_solution n m r (varValue s) = Inr res)"
  by (auto simp: extract_step_def split: sum.splits)

theorem extraction_idempotent_witness:
  "extract_step 2 2 [2, 3] \<lparr>varValue = scenario_assignment, extracted = None\<rparr> =
     Inr \<lparr>varValue = scenario_assignment,
          extracted = Some \<lparr>x_sol = [[10, 15], [10, 15]], tons_assigned = [25, 25],
                             revenue_assigned = [65, 65]\<rparr>\<rparr> \<and>
   extract_step 2 2 [2, 3]
     \<lparr>varValue = scenario_assignment,
      extracted = Some \<lparr>x_sol = [[10, 15], [10, 15]], tons_assigned = [25, 25],
                         revenue_assigned = [65, 65]\<rparr>\<rparr> =
     Inr \<lparr>varValue = scenario_assignment,
          extracted = Some \<lparr>x_sol = [[10, 15], [10, 15]], tons_assigned = [25, 25],
                             revenue_assigned = [65, 65]\<rparr>\<rparr>"
proof -
  have e: "extract_solution 2 2 [2, 3] scenario_assignment =
      Inr \<lparr>x_sol = [[10, 15], [10, 15]], tons_assigned = [25, 25],
           revenue_assigned = [65, 65]\<rparr>"
    by (simp add: extract_Inr upt_2 lessThan_2)
  have s: "extract_step 2 2 [2, 3] \<lparr>varValue = scenario_assignment, extracted = None\<rparr> =
     Inr \<lparr>varValue = scenario_assignment,
          extracted = Some \<lparr>x_sol = [[10, 15], [10, 15]], tons_assigned = [25, 25],
                             revenue_assigned = [65, 65]\<rparr>\<rparr>"
    by (simp add: extract_step_def e)
  show ?thesis
    using s extraction_idempotent [OF s] by simp
qed

subsection \<open>Conservation of tonnage\<close>





end
